theory Spec2Isabelle
  imports Complex_Main "HOL-Library.AList"
begin

section \<open>Python values, exceptions and the library boundary\<close>

text \<open>
  The client of \<^verbatim>\<open>src/client/client.py\<close> talks to the outside through four libraries:
  \<^verbatim>\<open>requests\<close> (network), \<^verbatim>\<open>time\<close> (clock and sleep), \<^verbatim>\<open>logging\<close> and \<^verbatim>\<open>json\<close>.
  Their effects are made explicit: a \<open>world\<close> holds the clock and the trace of observable
  events, and an \<open>env\<close> holds what the libraries and the server answer.
\<close>

text \<open>Python values as \<^verbatim>\<open>json.loads\<close> produces them; \<open>JNull\<close> is Python's \<^verbatim>\<open>None\<close>.\<close>

datatype json =
    JNull
  | JBool bool
  | JInt int
  | JFloat real
  | JString string
  | JArray "json list"
  | JObject "(string \<times> json) list"

text \<open>
  The exception classes that occur; the string is \<^verbatim>\<open>str(e)\<close>. \<open>OtherError\<close> stands for
  every other class, with its name: \<^verbatim>\<open>RecursionError\<close>, the \<^verbatim>\<open>LocationParseError\<close> of
  \<^verbatim>\<open>urllib3\<close>, \<^verbatim>\<open>UnicodeEncodeError\<close>, ...
\<close>

datatype py_exc =
    RequestException string
  | JSONDecodeError string
  | ValueError string
  | Exception string
  | OtherError string string

fun str_exc :: "py_exc \<Rightarrow> string" where
  "str_exc (RequestException m) = m"
| "str_exc (JSONDecodeError m) = m"
| "str_exc (ValueError m) = m"
| "str_exc (Exception m) = m"
| "str_exc (OtherError cls m) = m"

text \<open>\<^verbatim>\<open>except json.JSONDecodeError\<close>\<close>

fun is_JSONDecodeError :: "py_exc \<Rightarrow> bool" where
  "is_JSONDecodeError (JSONDecodeError m) = True"
| "is_JSONDecodeError e = False"

datatype level = INFO | WARNING | ERROR

datatype http_method = GET | POST

record http_request =
  req_method :: http_method
  req_url :: string
  req_headers :: "(string \<times> string) list"
  req_json :: "json option"
  req_timeout :: int

record http_response =
  status_code :: int
  body_text :: string

datatype event =
    Request http_request
  | Sleep int
  | Log level string
  | Stdout string

fun is_Request :: "event \<Rightarrow> bool" where
  "is_Request (Request r) = True"
| "is_Request e = False"

fun is_Sleep :: "event \<Rightarrow> bool" where
  "is_Sleep (Sleep d) = True"
| "is_Sleep e = False"

record world =
  now :: real
  trace :: "event list"

text \<open>
  What the surroundings answer. \<open>network E i r\<close> is the outcome of the \<open>i\<close>-th call of
  \<^verbatim>\<open>requests.get\<close> or \<^verbatim>\<open>requests.post\<close> (counted from 0 over the whole trace) with the
  request \<open>r\<close>: the time it takes, and either the response or the exception that the
  library raises. That is a \<^verbatim>\<open>RequestException\<close> for the network-level failures (timeout,
  connection refused, DNS failure, ...), but the library also raises exceptions of other
  classes: \<^verbatim>\<open>ValueError\<close> for a timeout that is not positive, and errors of \<^verbatim>\<open>urllib3\<close>
  that it does not wrap. \<open>json_loads\<close> is the JSON parser, which raises \<^verbatim>\<open>JSONDecodeError\<close>
  on text that is not JSON (and \<^verbatim>\<open>RecursionError\<close> on text nested too deeply);
  \<open>json_dumps\<close> is the printer with its indent. In \<^verbatim>\<open>requests\<close> from 2.27 on the decode
  error of \<^verbatim>\<open>response.json()\<close> is a subclass of \<^verbatim>\<open>RequestException\<close>, before it is not:
  \<open>json_error_is_request_exception\<close> says which.
\<close>

record env =
  network :: "nat \<Rightarrow> http_request \<Rightarrow> real \<times> (py_exc + http_response)"
  json_loads :: "string \<Rightarrow> py_exc + json"
  json_dumps :: "json \<Rightarrow> nat \<Rightarrow> string"
  json_error_is_request_exception :: bool

text \<open>\<^verbatim>\<open>except requests.RequestException\<close>\<close>

fun is_RequestException :: "env \<Rightarrow> py_exc \<Rightarrow> bool" where
  "is_RequestException E (RequestException m) = True"
| "is_RequestException E (JSONDecodeError m) = json_error_is_request_exception E"
| "is_RequestException E (ValueError m) = False"
| "is_RequestException E (Exception m) = False"
| "is_RequestException E (OtherError cls m) = False"

definition net_calls :: "world \<Rightarrow> nat" where
  "net_calls w = length (filter is_Request (trace w))"

text \<open>
  \<^verbatim>\<open>requests.get\<close> / \<^verbatim>\<open>requests.post\<close>: one call of the library, recorded in the trace;
  it returns the response or raises whatever the library raises.
\<close>

definition requests_send :: "env \<Rightarrow> http_request \<Rightarrow> world \<Rightarrow> (py_exc + http_response) \<times> world" where
  "requests_send E r w =
     (case network E (net_calls w) r of
        (dt, out) \<Rightarrow>
          let w' = w\<lparr>now := now w + dt, trace := trace w @ [Request r]\<rparr>
          in (case out of
                Inl e \<Rightarrow> (Inl e, w')
              | Inr response \<Rightarrow> (Inr response, w')))"

text \<open>\<^verbatim>\<open>response.json()\<close>: the parser on the body, its exceptions passed on.\<close>

definition response_json :: "env \<Rightarrow> http_response \<Rightarrow> py_exc + json" where
  "response_json E response =
     (case json_loads E (body_text response) of
        Inl e \<Rightarrow> Inl e
      | Inr v \<Rightarrow> Inr v)"

text \<open>\<^verbatim>\<open>time.sleep\<close> refuses a negative length.\<close>

definition time_sleep :: "int \<Rightarrow> world \<Rightarrow> (py_exc + unit) \<times> world" where
  "time_sleep d w =
     (if d < 0 then (Inl (ValueError ''sleep length must be non-negative''), w)
      else (Inr (), w\<lparr>now := now w + of_int d, trace := trace w @ [Sleep d]\<rparr>))"

definition log :: "level \<Rightarrow> string \<Rightarrow> world \<Rightarrow> world" where
  "log lvl msg w = w\<lparr>trace := trace w @ [Log lvl msg]\<rparr>"

text \<open>\<^verbatim>\<open>int(x)\<close> on a float truncates towards zero.\<close>

definition py_int :: "real \<Rightarrow> int" where
  "py_int x = (if 0 \<le> x then \<lfloor>x\<rfloor> else \<lceil>x\<rceil>)"

text \<open>\<^verbatim>\<open>str(n)\<close> on an integer, as the f-strings format it: decimal, \<open>-\<close> for negatives.\<close>

definition digit_char :: "nat \<Rightarrow> char" where
  "digit_char d = ''0123456789'' ! d"

function digits :: "int \<Rightarrow> string" where
  "digits n =
     (if n < 10 then [digit_char (nat n)]
      else digits (n div 10) @ [digit_char (nat (n mod 10))])"
  by pat_completeness auto
termination
  by (relation "measure nat") auto

declare digits.simps [simp del]

definition str_int :: "int \<Rightarrow> string" where
  "str_int i = (if i < 0 then CHR ''-'' # digits (- i) else digits i)"

section \<open>The client\<close>

record client =
  server_url :: string
  api_key :: string
  timeout :: int
  max_retries :: int
  retry_delay :: int
  headers :: "(string \<times> string) list"

text \<open>\<^verbatim>\<open>server_url.rstrip('/')\<close>\<close>

definition rstrip_slash :: "string \<Rightarrow> string" where
  "rstrip_slash s = rev (dropWhile (\<lambda>c. c = CHR ''/'') (rev s))"

definition health_request :: "client \<Rightarrow> http_request" where
  "health_request c =
     \<lparr>req_method = GET, req_url = server_url c @ ''/api/health'',
      req_headers = headers c, req_json = None, req_timeout = timeout c\<rparr>"

definition check_connection :: "env \<Rightarrow> client \<Rightarrow> world \<Rightarrow> (py_exc + bool) \<times> world" where
  "check_connection E c w =
     (case requests_send E (health_request c) w of
        (Inr response, w1) \<Rightarrow>
          if status_code response = 200
          then (Inr True, log INFO ''Successfully connected to OpenHands server'' w1)
          else (Inr False,
                log WARNING (''Server returned status code '' @ str_int (status_code response)) w1)
      | (Inl e, w1) \<Rightarrow>
          if is_RequestException E e
          then (Inr False, log ERROR (''Failed to connect to server: '' @ str_exc e) w1)
          else (Inl e, w1))"

text \<open>\<^verbatim>\<open>__init__\<close>; an omitted keyword argument is \<open>None\<close> and takes its default.\<close>

definition init ::
  "env \<Rightarrow> string \<Rightarrow> string \<Rightarrow> int option \<Rightarrow> int option \<Rightarrow> int option \<Rightarrow> world
    \<Rightarrow> (py_exc + client) \<times> world" where
  "init E url key timeout_arg max_retries_arg retry_delay_arg w =
     (let self = \<lparr>server_url = rstrip_slash url,
                   api_key = key,
                   timeout = (case timeout_arg of None \<Rightarrow> 60 | Some t \<Rightarrow> t),
                   max_retries = (case max_retries_arg of None \<Rightarrow> 3 | Some n \<Rightarrow> n),
                   retry_delay = (case retry_delay_arg of None \<Rightarrow> 2 | Some d \<Rightarrow> d),
                   headers = [(''Authorization'', ''Bearer '' @ key),
                              (''Content-Type'', ''application/json'')]\<rparr>
      in (case check_connection E self w of
            (Inl e, w1) \<Rightarrow> (Inl e, w1)
          | (Inr ok, w1) \<Rightarrow> (Inr self, w1)))"

section \<open>Executing a tool: payload and retry loop\<close>

definition execute_request :: "client \<Rightarrow> (string \<times> json) list \<Rightarrow> http_request" where
  "execute_request c payload =
     \<lparr>req_method = POST, req_url = server_url c @ ''/api/v1/execute'',
      req_headers = headers c, req_json = Some (JObject payload), req_timeout = timeout c\<rparr>"

text \<open>How one pass through the body of the \<^verbatim>\<open>for\<close> loop ends, when it does not raise.\<close>

datatype 'a flow = Return 'a | Next_attempt

text \<open>The three f-strings of \<^verbatim>\<open>execute_tool\<close> (lines 121, 129 and 126/134).\<close>

definition status_warning :: "client \<Rightarrow> int \<Rightarrow> http_response \<Rightarrow> string" where
  "status_warning c attempt response =
     ''Attempt '' @ str_int (attempt + 1) @ ''/'' @ str_int (max_retries c)
     @ '' failed with status '' @ str_int (status_code response) @ '': '' @ body_text response"

definition request_error :: "client \<Rightarrow> int \<Rightarrow> py_exc \<Rightarrow> string" where
  "request_error c attempt e =
     ''Request error on attempt '' @ str_int (attempt + 1) @ ''/'' @ str_int (max_retries c)
     @ '': '' @ str_exc e"

definition failure_message :: "client \<Rightarrow> string \<Rightarrow> string" where
  "failure_message c detail =
     ''Failed to execute tool after '' @ str_int (max_retries c) @ '' attempts: '' @ detail"

text \<open>The \<^verbatim>\<open>try\<close> block of one attempt (lines 111 to 126).\<close>

definition try_block ::
  "env \<Rightarrow> client \<Rightarrow> (string \<times> json) list \<Rightarrow> int \<Rightarrow> world \<Rightarrow> (py_exc + json flow) \<times> world" where
  "try_block E c payload attempt w =
     (case requests_send E (execute_request c payload) w of
        (Inl e, w1) \<Rightarrow> (Inl e, w1)
      | (Inr response, w1) \<Rightarrow>
          if status_code response = 200 then
            (case response_json E response of
               Inl e \<Rightarrow> (Inl e, w1)
             | Inr v \<Rightarrow> (Inr (Return v), w1))
          else
            let w2 = log WARNING (status_warning c attempt response) w1
            in if attempt < max_retries c - 1 then
                 (case time_sleep (retry_delay c) w2 of
                    (Inl e, w3) \<Rightarrow> (Inl e, w3)
                  | (Inr u, w3) \<Rightarrow> (Inr Next_attempt, w3))
               else
                 (Inl (Exception (failure_message c (body_text response))), w2))"

text \<open>
  The \<^verbatim>\<open>except requests.RequestException\<close> handler (lines 128 to 134). It never
  returns a value: it goes on to the next attempt or raises.
\<close>

definition except_block ::
  "client \<Rightarrow> int \<Rightarrow> py_exc \<Rightarrow> world \<Rightarrow> (py_exc + json flow) \<times> world" where
  "except_block c attempt e w =
     (let w1 = log ERROR (request_error c attempt e) w
      in if attempt < max_retries c - 1 then
           (case time_sleep (retry_delay c) w1 of
              (Inl e', w2) \<Rightarrow> (Inl e', w2)
            | (Inr u, w2) \<Rightarrow> (Inr Next_attempt, w2))
         else
           (Inl (Exception (failure_message c (str_exc e))), w1))"

text \<open>
  The whole \<^verbatim>\<open>try\<close> statement of one attempt: an exception of the \<^verbatim>\<open>try\<close> block
  goes to the handler when it is a \<^verbatim>\<open>RequestException\<close> and leaves the function
  otherwise (so the \<^verbatim>\<open>Exception\<close> raised on line 126 is not caught by line 128).
\<close>

definition attempt_body ::
  "env \<Rightarrow> client \<Rightarrow> (string \<times> json) list \<Rightarrow> int \<Rightarrow> world \<Rightarrow> (py_exc + json flow) \<times> world" where
  "attempt_body E c payload attempt w =
     (case try_block E c payload attempt w of
        (Inl e, w1) \<Rightarrow>
          if is_RequestException E e then except_block c attempt e w1 else (Inl e, w1)
      | (Inr f, w1) \<Rightarrow> (Inr f, w1))"

text \<open>
  \<^verbatim>\<open>for attempt in range(self.max_retries)\<close>, from \<open>attempt\<close> on. When the range is
  exhausted the function falls off its end and returns \<^verbatim>\<open>None\<close>.
\<close>

function attempt_loop ::
  "env \<Rightarrow> client \<Rightarrow> (string \<times> json) list \<Rightarrow> int \<Rightarrow> world \<Rightarrow> (py_exc + json) \<times> world" where
  "attempt_loop E c payload attempt w =
     (if attempt < max_retries c then
        (case attempt_body E c payload attempt w of
           (Inl e, w1) \<Rightarrow> (Inl e, w1)
         | (Inr (Return v), w1) \<Rightarrow> (Inr v, w1)
         | (Inr Next_attempt, w1) \<Rightarrow> attempt_loop E c payload (attempt + 1) w1)
      else (Inr JNull, w))"
  by pat_completeness auto
termination
  by (relation "measure (\<lambda>(E, c, payload, attempt, w). nat (max_retries c - attempt))") auto

declare attempt_loop.simps [simp del]

definition build_payload ::
  "string \<Rightarrow> json \<Rightarrow> string option \<Rightarrow> string option \<Rightarrow> world \<Rightarrow> (string \<times> json) list" where
  "build_payload tool parameters instance_id conversation_id w =
     (let conversation_id' =
            (case conversation_id of
               None \<Rightarrow> ''conv-'' @ str_int (py_int (now w))
             | Some cid \<Rightarrow> cid);
          payload = [(''tool'', JString tool),
                     (''parameters'', parameters),
                     (''conversation_id'', JString conversation_id')]
      in (case instance_id of
            None \<Rightarrow> payload
          | Some i \<Rightarrow> if i \<noteq> [] then AList.update ''instance_id'' (JString i) payload
                      else payload))"

definition execute_tool ::
  "env \<Rightarrow> client \<Rightarrow> string \<Rightarrow> json \<Rightarrow> string option \<Rightarrow> string option \<Rightarrow> world
    \<Rightarrow> (py_exc + json) \<times> world" where
  "execute_tool E self tool parameters instance_id conversation_id w =
     attempt_loop E self (build_payload tool parameters instance_id conversation_id w) 0 w"

subsection \<open>Convenience methods\<close>

definition execute_bash ::
  "env \<Rightarrow> client \<Rightarrow> string \<Rightarrow> string option \<Rightarrow> string option \<Rightarrow> world
    \<Rightarrow> (py_exc + json) \<times> world" where
  "execute_bash E self command instance_id conversation_id w =
     execute_tool E self ''execute_bash'' (JObject [(''command'', JString command)])
       instance_id conversation_id w"

definition execute_python ::
  "env \<Rightarrow> client \<Rightarrow> string \<Rightarrow> string option \<Rightarrow> string option \<Rightarrow> world
    \<Rightarrow> (py_exc + json) \<times> world" where
  "execute_python E self code instance_id conversation_id w =
     execute_tool E self ''execute_ipython_cell'' (JObject [(''code'', JString code)])
       instance_id conversation_id w"

text \<open>\<open>start_arg\<close> and \<open>end_arg\<close> are \<open>None\<close> when the caller omits them.\<close>

definition edit_file ::
  "env \<Rightarrow> client \<Rightarrow> string \<Rightarrow> string \<Rightarrow> int option \<Rightarrow> int option
    \<Rightarrow> string option \<Rightarrow> string option \<Rightarrow> world \<Rightarrow> (py_exc + json) \<times> world" where
  "edit_file E self path new_content_draft start_arg end_arg instance_id conversation_id w =
     (let start = (case start_arg of None \<Rightarrow> 1 | Some s \<Rightarrow> s);
          end' = (case end_arg of None \<Rightarrow> - 1 | Some e \<Rightarrow> e)
      in execute_tool E self ''edit_file''
           (JObject [(''path'', JString path),
                     (''new_content_draft'', JString new_content_draft),
                     (''start'', JInt start),
                     (''end'', JInt end')])
           instance_id conversation_id w)"

section \<open>The command line\<close>

text \<open>The parsed arguments of \<^verbatim>\<open>argparse\<close>; \<^verbatim>\<open>--instance\<close> is optional.\<close>

record args =
  arg_server :: string
  arg_key :: string
  arg_tool :: string
  arg_params :: string
  arg_instance :: "string option"

definition main :: "env \<Rightarrow> args \<Rightarrow> world \<Rightarrow> (py_exc + unit) \<times> world" where
  "main E a w =
     (case init E (arg_server a) (arg_key a) None None None w of
        (Inl e, w1) \<Rightarrow> (Inl e, w1)
      | (Inr client, w1) \<Rightarrow>
          (case json_loads E (arg_params a) of
             Inl e \<Rightarrow>
               if is_JSONDecodeError e
               then (Inr (), log ERROR ''Invalid JSON in params argument'' w1)
               else (Inl e, w1)
           | Inr params \<Rightarrow>
               (case execute_tool E client (arg_tool a) params (arg_instance a) None w1 of
                  (Inl e, w2) \<Rightarrow> (Inl e, w2)
                | (Inr result, w2) \<Rightarrow>
                    (Inr (), w2\<lparr>trace := trace w2 @ [Stdout (json_dumps E result 2)]\<rparr>))))"

section \<open>Notions of the specification\<close>

text \<open>
  The identifier pattern \<^verbatim>\<open>conv-<integer>\<close>: the prefix, then an optional minus sign and at
  least one decimal digit.
\<close>

definition is_digit :: "char \<Rightarrow> bool" where
  "is_digit ch = (ch \<in> set ''0123456789'')"

definition is_integer_literal :: "string \<Rightarrow> bool" where
  "is_integer_literal s =
     (case s of
        [] \<Rightarrow> False
      | x # xs \<Rightarrow> if x = CHR ''-'' then xs \<noteq> [] \<and> list_all is_digit xs
                  else list_all is_digit s)"

definition matches_conv_pattern :: "string \<Rightarrow> bool" where
  "matches_conv_pattern s = (take 5 s = ''conv-'' \<and> is_integer_literal (drop 5 s))"

text \<open>
  What the \<open>i\<close>-th attempt (from 0) leaves in the trace when the server answers it with the
  non-200 response \<open>resp i\<close>: the request, the warning, and the wait unless it was the last.
\<close>

definition failed_attempt ::
  "client \<Rightarrow> http_request \<Rightarrow> (nat \<Rightarrow> http_response) \<Rightarrow> nat \<Rightarrow> event list" where
  "failed_attempt c rq resp i =
     [Request rq, Log WARNING (status_warning c (int i) (resp i))]
     @ (if int i < max_retries c - 1 then [Sleep (retry_delay c)] else [])"

section \<open>Concrete scenarios\<close>

text \<open>
  A parser that accepts the empty object only; a library that refuses a timeout that is not
  positive, as \<^verbatim>\<open>urllib3\<close> does, and otherwise gives \<open>replies i\<close> as the outcome of the
  \<open>i\<close>-th call after half a second; a client with the default retry policy and a starting
  world.
\<close>

definition demo_loads :: "string \<Rightarrow> py_exc + json" where
  "demo_loads s =
     (if s = ''{}'' then Inr (JObject []) else Inl (JSONDecodeError ''Expecting value''))"

definition timeout_error :: py_exc where
  "timeout_error =
     ValueError ''Attempted to set connect timeout to 0, but the timeout cannot be set to a value less than or equal to 0.''"

definition scenario :: "(nat \<Rightarrow> py_exc + http_response) \<Rightarrow> bool \<Rightarrow> env" where
  "scenario replies newer =
     \<lparr>network = (\<lambda>i r. if req_timeout r \<le> 0 then (0, Inl timeout_error)
                          else (1 / 2, replies i)),
      json_loads = demo_loads,
      json_dumps = (\<lambda>v n. ''{}''), json_error_is_request_exception = newer\<rparr>"

definition demo_client :: client where
  "demo_client =
     \<lparr>server_url = ''http://vm'', api_key = ''k'', timeout = 60, max_retries = 3,
      retry_delay = 2,
      headers = [(''Authorization'', ''Bearer k''), (''Content-Type'', ''application/json'')]\<rparr>"

definition always :: "http_response \<Rightarrow> nat \<Rightarrow> py_exc + http_response" where
  "always response i = Inr response"

definition refused :: "nat \<Rightarrow> py_exc + http_response" where
  "refused i = Inl (RequestException ''Connection refused'')"

definition busy :: http_response where
  "busy = \<lparr>status_code = 500, body_text = ''busy''\<rparr>"

definition ok_empty :: http_response where
  "ok_empty = \<lparr>status_code = 200, body_text = ''{}''\<rparr>"

definition ok_html :: http_response where
  "ok_html = \<lparr>status_code = 200, body_text = ''<html>''\<rparr>"

definition world0 :: world where
  "world0 = \<lparr>now = 1700000000, trace = []\<rparr>"

definition demo_args :: args where
  "demo_args =
     \<lparr>arg_server = ''http://vm/'', arg_key = ''k'', arg_tool = ''execute_bash'',
      arg_params = ''{bad'', arg_instance = None\<rparr>"

section \<open>Network calls and the retry loop\<close>

lemma requests_send_eq:
  "requests_send E r w =
     (snd (network E (net_calls w) r),
      w\<lparr>now := now w + fst (network E (net_calls w) r), trace := trace w @ [Request r]\<rparr>)"
  by (simp add: requests_send_def Let_def split: prod.splits sum.splits)

lemma net_calls_simps [simp]:
  "net_calls (w\<lparr>trace := t\<rparr>) = length (filter is_Request t)"
  "net_calls (w\<lparr>now := x\<rparr>) = net_calls w"
  by (simp_all add: net_calls_def)

lemma attempt_loop_exhausted:
  "\<not> a < max_retries c \<Longrightarrow> attempt_loop E c p a w = (Inr JNull, w)"
  by (simp add: attempt_loop.simps)

lemma attempt_loop_step:
  "a < max_retries c \<Longrightarrow>
   attempt_loop E c p a w =
     (case attempt_body E c p a w of
        (Inl e, w1) \<Rightarrow> (Inl e, w1)
      | (Inr (Return v), w1) \<Rightarrow> (Inr v, w1)
      | (Inr Next_attempt, w1) \<Rightarrow> attempt_loop E c p (a + 1) w1)"
  by (subst attempt_loop.simps) simp

lemma attempt_body_non200:
  assumes "network E (net_calls w) (execute_request c p) = (dt, Inr resp)"
    and "status_code resp \<noteq> 200" and "0 \<le> retry_delay c"
  shows "attempt_body E c p a w =
     (if a < max_retries c - 1
      then (Inr Next_attempt,
            w\<lparr>now := now w + dt + of_int (retry_delay c),
              trace := trace w @ [Request (execute_request c p),
                                  Log WARNING (status_warning c a resp),
                                  Sleep (retry_delay c)]\<rparr>)
      else (Inl (Exception (failure_message c (body_text resp))),
            w\<lparr>now := now w + dt,
              trace := trace w @ [Request (execute_request c p),
                                  Log WARNING (status_warning c a resp)]\<rparr>))"
  using assms
  by (simp add: attempt_body_def try_block_def requests_send_eq time_sleep_def log_def Let_def)

lemma attempt_body_Return:
  assumes "attempt_body E c p a w = (Inr (Return v), w1)"
  shows "\<exists>dt resp. network E (net_calls w) (execute_request c p) = (dt, Inr resp)
           \<and> status_code resp = 200 \<and> json_loads E (body_text resp) = Inr v
           \<and> w1 = w\<lparr>now := now w + dt, trace := trace w @ [Request (execute_request c p)]\<rparr>"
proof -
  obtain dt out where n: "network E (net_calls w) (execute_request c p) = (dt, out)"
    by (cases "network E (net_calls w) (execute_request c p)")
  show ?thesis
    using assms n
    by (auto simp: attempt_body_def try_block_def except_block_def requests_send_eq
          response_json_def time_sleep_def log_def Let_def split: sum.splits if_splits)
qed

lemma attempt_body_Next:
  assumes "attempt_body E c p a w = (Inr Next_attempt, w1)"
  shows "a < max_retries c - 1"
  using assms
  by (auto simp: attempt_body_def try_block_def except_block_def requests_send_eq
        response_json_def time_sleep_def log_def Let_def split: sum.splits if_splits)

lemma attempt_body_200:
  assumes "network E (net_calls w) (execute_request c p) = (dt, Inr resp)"
    and "status_code resp = 200" and "json_loads E (body_text resp) = Inr v"
  shows "attempt_body E c p a w =
     (Inr (Return v), w\<lparr>now := now w + dt, trace := trace w @ [Request (execute_request c p)]\<rparr>)"
  using assms
  by (simp add: attempt_body_def try_block_def requests_send_eq response_json_def)

lemma attempt_loop_returns:
  assumes "attempt_loop E c p a w = (Inr v, w')" and "a < max_retries c"
  shows "\<exists>dt resp w0. network E (net_calls w0) (execute_request c p) = (dt, Inr resp)
           \<and> status_code resp = 200 \<and> json_loads E (body_text resp) = Inr v
           \<and> w' = w0\<lparr>now := now w0 + dt, trace := trace w0 @ [Request (execute_request c p)]\<rparr>"
  using assms
proof (induction "nat (max_retries c - a)" arbitrary: a w)
  case 0
  then show ?case by simp
next
  case (Suc n)
  then have n: "n = nat (max_retries c - (a + 1))" by simp
  obtain r w1 where ab: "attempt_body E c p a w = (r, w1)"
    by (cases "attempt_body E c p a w")
  show ?case
  proof (cases r)
    case (Inl e)
    with ab Suc.prems show ?thesis by (simp add: attempt_loop_step)
  next
    case (Inr f)
    show ?thesis
    proof (cases f)
      case (Return v')
      with Inr ab Suc.prems have "v' = v" "w1 = w'" by (simp_all add: attempt_loop_step)
      with Return Inr ab show ?thesis using attempt_body_Return by blast
    next
      case Next_attempt
      with Inr ab have lt: "a + 1 < max_retries c" using attempt_body_Next by fastforce
      from Next_attempt Inr ab Suc.prems have "attempt_loop E c p (a + 1) w1 = (Inr v, w')"
        by (simp add: attempt_loop_step)
      from Suc.hyps(1)[OF n this lt] show ?thesis .
    qed
  qed
qed


lemma attempt_loop_all_fail:
  assumes "0 \<le> retry_delay c" and "0 \<le> a" and "a < max_retries c"
    and "\<forall>i. nat a \<le> i \<and> i < nat (max_retries c) \<longrightarrow>
           network E (net_calls w + (i - nat a)) (execute_request c p) = (dt i, Inr (resp i))
           \<and> status_code (resp i) \<noteq> 200"
  shows "fst (attempt_loop E c p a w)
           = Inl (Exception (failure_message c (body_text (resp (nat (max_retries c) - 1)))))
       \<and> trace (snd (attempt_loop E c p a w))
           = trace w @ concat (map (failed_attempt c (execute_request c p) resp)
                                [nat a..<nat (max_retries c)])"
  using assms
proof (induction "nat (max_retries c - a)" arbitrary: a w)
  case 0
  from "0.hyps" "0.prems"(3) show ?case by simp
next
  case (Suc n)
  let ?rq = "execute_request c p"
  have here: "network E (net_calls w) ?rq = (dt (nat a), Inr (resp (nat a)))"
      "status_code (resp (nat a)) \<noteq> 200"
    using Suc.prems(2,3) Suc.prems(4)[rule_format, of "nat a"] by simp_all
  have a: "int (nat a) = a" using Suc.prems(2) by simp
  have upt: "[nat a..<nat (max_retries c)] = nat a # [nat (a + 1)..<nat (max_retries c)]"
  proof -
    have "nat a < nat (max_retries c)" using Suc.prems(2,3) by simp
    moreover have "nat (a + 1) = Suc (nat a)" using Suc.prems(2) by simp
    ultimately show ?thesis by (simp only: upt_conv_Cons)
  qed
  show ?case
  proof (cases "a < max_retries c - 1")
    case False
    then have last: "nat (max_retries c) - 1 = nat a" "nat (a + 1) = nat (max_retries c)"
      using Suc.prems(2,3) by simp_all
    have "attempt_body E c p a w =
       (Inl (Exception (failure_message c (body_text (resp (nat a))))),
        w\<lparr>now := now w + dt (nat a),
          trace := trace w @ [Request ?rq, Log WARNING (status_warning c a (resp (nat a)))]\<rparr>)"
      using attempt_body_non200[OF here Suc.prems(1), of a] False by simp
    then show ?thesis
      using Suc.prems(3) False last a by (simp add: attempt_loop_step upt failed_attempt_def)
  next
    case True
    define w1 where "w1 = w\<lparr>now := now w + dt (nat a) + of_int (retry_delay c),
          trace := trace w @ [Request ?rq, Log WARNING (status_warning c a (resp (nat a))),
                              Sleep (retry_delay c)]\<rparr>"
    have body: "attempt_body E c p a w = (Inr Next_attempt, w1)"
      using attempt_body_non200[OF here Suc.prems(1), of a] True by (simp add: w1_def)
    then have eq: "attempt_loop E c p a w = attempt_loop E c p (a + 1) w1"
      using Suc.prems(3) by (simp add: attempt_loop_step)
    have nc: "net_calls w1 = Suc (net_calls w)" by (simp add: w1_def net_calls_def)
    have n: "n = nat (max_retries c - (a + 1))" using Suc.hyps(2) by simp
    have rest: "\<forall>i. nat (a + 1) \<le> i \<and> i < nat (max_retries c) \<longrightarrow>
           network E (net_calls w1 + (i - nat (a + 1))) ?rq = (dt i, Inr (resp i))
           \<and> status_code (resp i) \<noteq> 200"
    proof (intro allI impI)
      fix i assume i: "nat (a + 1) \<le> i \<and> i < nat (max_retries c)"
      then have "nat a \<le> i \<and> i < nat (max_retries c)" by linarith
      moreover have "net_calls w1 + (i - nat (a + 1)) = net_calls w + (i - nat a)"
        using i Suc.prems(2) nc by linarith
      ultimately show "network E (net_calls w1 + (i - nat (a + 1))) ?rq = (dt i, Inr (resp i))
           \<and> status_code (resp i) \<noteq> 200"
        using Suc.prems(4) by simp
    qed
    have "0 \<le> a + 1" "a + 1 < max_retries c" using Suc.prems(2) True by simp_all
    from Suc.hyps(1)[OF n Suc.prems(1) this rest]
    show ?thesis
      using eq a True by (simp add: upt failed_attempt_def w1_def)
  qed
qed


lemma attempt_body_requests:
  "filter is_Request (trace (snd (attempt_body E c p a w)))
     = filter is_Request (trace w) @ [Request (execute_request c p)]"
  by (simp add: attempt_body_def try_block_def except_block_def requests_send_eq response_json_def
        time_sleep_def log_def Let_def split: sum.splits)

lemma attempt_loop_requests:
  "\<exists>k. filter is_Request (trace (snd (attempt_loop E c p a w)))
         = filter is_Request (trace w) @ replicate k (Request (execute_request c p))
       \<and> int k \<le> max 0 (max_retries c - a)"
proof (induction "nat (max_retries c - a)" arbitrary: a w)
  case 0
  then have "\<not> a < max_retries c" by simp
  then show ?case by (simp add: attempt_loop_exhausted)
next
  case (Suc n)
  then have lt: "a < max_retries c" and n: "n = nat (max_retries c - (a + 1))" by simp_all
  obtain r w1 where ab: "attempt_body E c p a w = (r, w1)"
    by (cases "attempt_body E c p a w")
  have t1: "filter is_Request (trace w1)
              = filter is_Request (trace w) @ [Request (execute_request c p)]"
    using attempt_body_requests[of E c p a w] ab by simp
  show ?case
  proof (cases "r = Inr Next_attempt")
    case False
    then have "snd (attempt_loop E c p a w) = w1"
      using lt ab by (simp add: attempt_loop_step split: sum.splits flow.splits)
    with t1 lt have "filter is_Request (trace (snd (attempt_loop E c p a w)))
         = filter is_Request (trace w) @ replicate 1 (Request (execute_request c p))
       \<and> int 1 \<le> max 0 (max_retries c - a)" by simp
    then show ?thesis by blast
  next
    case True
    then have eq: "attempt_loop E c p a w = attempt_loop E c p (a + 1) w1"
      using lt ab by (simp add: attempt_loop_step)
    from Suc.hyps(1)[OF n, of w1] obtain k where
      k: "filter is_Request (trace (snd (attempt_loop E c p (a + 1) w1)))
            = filter is_Request (trace w1) @ replicate k (Request (execute_request c p))"
         "int k \<le> max 0 (max_retries c - (a + 1))" by blast
    have "filter is_Request (trace (snd (attempt_loop E c p a w)))
         = filter is_Request (trace w) @ replicate (Suc k) (Request (execute_request c p))
       \<and> int (Suc k) \<le> max 0 (max_retries c - a)"
      using k t1 eq lt by simp
    then show ?thesis by blast
  qed
qed

lemma execute_tool_requests:
  "filter is_Request (trace (snd (execute_tool E c tool ps iid cid w)))
     = filter is_Request (trace w)
       @ replicate (net_calls (snd (execute_tool E c tool ps iid cid w)) - net_calls w)
           (Request (execute_request c (build_payload tool ps iid cid w)))"
proof -
  obtain k where k: "filter is_Request (trace (snd (execute_tool E c tool ps iid cid w)))
     = filter is_Request (trace w)
       @ replicate k (Request (execute_request c (build_payload tool ps iid cid w)))"
    unfolding execute_tool_def using attempt_loop_requests by blast
  then have "net_calls (snd (execute_tool E c tool ps iid cid w)) - net_calls w = k"
    by (simp add: net_calls_def)
  with k show ?thesis by simp
qed

lemma failed_attempts_requests:
  "length (filter is_Request (concat (map (failed_attempt c rq resp) [0..<m]))) = m"
  by (induction m) (simp_all add: failed_attempt_def)

lemma failed_attempt_sleeps:
  "filter is_Sleep (failed_attempt c rq resp i)
     = (if int i < max_retries c - 1 then [Sleep (retry_delay c)] else [])"
  by (simp add: failed_attempt_def)

lemma failed_attempts_sleeps:
  "m \<le> nat (max_retries c) \<Longrightarrow>
   filter is_Sleep (concat (map (failed_attempt c rq resp) [0..<m]))
     = replicate (min m (nat (max_retries c) - 1)) (Sleep (retry_delay c))"
proof (induction m)
  case 0
  then show ?case by simp
next
  case (Suc m)
  then have IH: "filter is_Sleep (concat (map (failed_attempt c rq resp) [0..<m]))
     = replicate (min m (nat (max_retries c) - 1)) (Sleep (retry_delay c))" by simp
  show ?case
  proof (cases "int m < max_retries c - 1")
    case True
    then have "min (Suc m) (nat (max_retries c) - 1) = Suc (min m (nat (max_retries c) - 1))"
      by linarith
    with True IH show ?thesis
      by (simp add: failed_attempt_sleeps replicate_append_same)
  next
    case False
    then have "min (Suc m) (nat (max_retries c) - 1) = min m (nat (max_retries c) - 1)"
      using Suc.prems by linarith
    with False IH show ?thesis by (simp add: failed_attempt_sleeps)
  qed
qed

section \<open>The health check\<close>

lemma check_connection_fst:
  "fst (check_connection E c w) =
     (case snd (network E (net_calls w) (health_request c)) of
        Inl e \<Rightarrow> if is_RequestException E e then Inr False else Inl e
      | Inr response \<Rightarrow> Inr (status_code response = 200))"
  by (simp add: check_connection_def requests_send_eq split: sum.splits)

lemma check_connection_requests:
  "filter is_Request (trace (snd (check_connection E c w)))
     = filter is_Request (trace w) @ [Request (health_request c)]"
  by (simp add: check_connection_def requests_send_eq log_def split: sum.splits)

text \<open>
  C3, as stated, fails: line 72 catches \<^verbatim>\<open>requests.RequestException\<close> only. A client built
  with \<open>timeout = 0\<close> makes \<^verbatim>\<open>requests.get\<close> raise \<^verbatim>\<open>ValueError\<close>, and \<open>check_connection\<close>
  raises it to its caller instead of returning \<open>False\<close>.
\<close>

theorem check_connection_raises_counterexample:
  "timeout (demo_client\<lparr>timeout := 0\<rparr>) = 0
   \<and> check_connection (scenario (always ok_empty) True) (demo_client\<lparr>timeout := 0\<rparr>) world0
       = (Inl timeout_error,
          \<lparr>now = 1700000000,
           trace = [Request (health_request (demo_client\<lparr>timeout := 0\<rparr>))]\<rparr>)"
  by code_simp

text \<open>
  C3, amended. \<open>check_connection\<close> sends exactly one request, a GET to the health path. It
  returns \<open>True\<close> exactly when the answer has status 200, and \<open>False\<close> on every other status
  and on every failure that the library raises as a \<^verbatim>\<open>RequestException\<close> (timeout,
  connection refused, DNS failure). It raises exactly when the library raises an exception
  that is not a \<^verbatim>\<open>RequestException\<close>, and then it raises that exception.
\<close>

theorem check_connection_outcome:
  "fst (check_connection E c w) =
     (case snd (network E (net_calls w) (health_request c)) of
        Inl e \<Rightarrow> if is_RequestException E e then Inr False else Inl e
      | Inr response \<Rightarrow> Inr (status_code response = 200))
   \<and> filter is_Request (trace (snd (check_connection E c w)))
       = filter is_Request (trace w) @ [Request (health_request c)]
   \<and> req_method (health_request c) = GET
   \<and> req_url (health_request c) = server_url c @ ''/api/health''"
  by (simp add: check_connection_fst check_connection_requests health_request_def)

theorem check_connection_outcome_witness:
  "fst (check_connection (scenario (always ok_empty) True) demo_client world0) = Inr True
   \<and> fst (check_connection (scenario (always busy) True) demo_client world0) = Inr False
   \<and> fst (check_connection (scenario refused True) demo_client world0) = Inr False
   \<and> filter is_Request (trace (snd (check_connection (scenario refused True) demo_client world0)))
       = [Request (health_request demo_client)]"
proof -
  have t: "trace world0 = []" "net_calls world0 = 0" by (simp_all add: world0_def net_calls_def)
  have n: "snd (network (scenario (always ok_empty) True) 0 (health_request demo_client))
             = Inr ok_empty"
      "snd (network (scenario (always busy) True) 0 (health_request demo_client)) = Inr busy"
      "snd (network (scenario refused True) 0 (health_request demo_client))
             = Inl (RequestException ''Connection refused'')"
    by (simp_all add: scenario_def always_def refused_def health_request_def demo_client_def)
  have s: "status_code ok_empty = 200" "status_code busy \<noteq> 200"
    by (simp_all add: ok_empty_def busy_def)
  from check_connection_outcome[of "scenario (always ok_empty) True" demo_client world0]
       check_connection_outcome[of "scenario (always busy) True" demo_client world0]
       check_connection_outcome[of "scenario refused True" demo_client world0]
  show ?thesis unfolding t n by (simp add: s)
qed

section \<open>A retry budget that is not positive\<close>

text \<open>
  C10. With \<open>max_retries \<le> 0\<close> the loop body never runs: \<open>execute_tool\<close> returns \<^verbatim>\<open>None\<close>
  without raising, and the world is unchanged, so no network call is made.
\<close>

theorem execute_tool_no_attempts:
  "max_retries c \<le> 0 \<Longrightarrow> execute_tool E c tool ps iid cid w = (Inr JNull, w)"
  by (simp add: execute_tool_def attempt_loop.simps)

theorem execute_tool_no_attempts_witness:
  "max_retries (demo_client\<lparr>max_retries := 0\<rparr>) \<le> 0
   \<and> execute_tool (scenario (always ok_empty) True) (demo_client\<lparr>max_retries := 0\<rparr>)
        ''execute_bash'' (JObject []) None None world0 = (Inr JNull, world0)
   \<and> net_calls world0 = 0"
  using execute_tool_no_attempts [of "demo_client\<lparr>max_retries := 0\<rparr>"
      "scenario (always ok_empty) True" "''execute_bash''" "JObject []" None None world0]
  by (simp add: demo_client_def world0_def net_calls_def)

section \<open>Every attempt answered with a status other than 200\<close>

text \<open>
  C1. Let the retry budget be \<open>n = max_retries \<ge> 1\<close> and the delay be a duration
  (\<open>retry_delay \<ge> 0\<close>), and let the server answer each of the \<open>n\<close> POST attempts with a
  response \<open>resp i\<close> whose status is not 200. Then \<open>execute_tool\<close> raises the
  "failed after n attempts" error carrying the body of the last response; the trace grows
  by exactly the \<open>n\<close> attempts, each one the request and its warning followed by a wait of
  \<open>retry_delay\<close> unless it is the last; so there are exactly \<open>n\<close> network calls and
  \<open>n - 1\<close> waits.
\<close>

theorem execute_tool_all_attempts_fail:
  assumes "1 \<le> max_retries c" and "0 \<le> retry_delay c"
    and "\<forall>i < nat (max_retries c).
           network E (net_calls w + i) (execute_request c (build_payload tool ps iid cid w))
             = (dt i, Inr (resp i))
           \<and> status_code (resp i) \<noteq> 200"
  shows "fst (execute_tool E c tool ps iid cid w)
           = Inl (Exception (failure_message c (body_text (resp (nat (max_retries c) - 1)))))
       \<and> trace (snd (execute_tool E c tool ps iid cid w))
           = trace w @ concat (map (failed_attempt c
                 (execute_request c (build_payload tool ps iid cid w)) resp)
                 [0..<nat (max_retries c)])
       \<and> net_calls (snd (execute_tool E c tool ps iid cid w)) = net_calls w + nat (max_retries c)
       \<and> filter is_Sleep (trace (snd (execute_tool E c tool ps iid cid w)))
           = filter is_Sleep (trace w) @ replicate (nat (max_retries c) - 1) (Sleep (retry_delay c))"
proof -
  let ?p = "build_payload tool ps iid cid w"
  have hyp: "\<forall>i. nat 0 \<le> i \<and> i < nat (max_retries c) \<longrightarrow>
           network E (net_calls w + (i - nat 0)) (execute_request c ?p) = (dt i, Inr (resp i))
           \<and> status_code (resp i) \<noteq> 200"
    using assms(3) by simp
  have lt: "(0::int) < max_retries c" using assms(1) by simp
  have loop: "fst (attempt_loop E c ?p 0 w)
           = Inl (Exception (failure_message c (body_text (resp (nat (max_retries c) - 1)))))
       \<and> trace (snd (attempt_loop E c ?p 0 w))
           = trace w @ concat (map (failed_attempt c (execute_request c ?p) resp)
                                [nat 0..<nat (max_retries c)])"
    by (rule attempt_loop_all_fail[OF assms(2) order_refl lt hyp])
  then have tr: "trace (snd (execute_tool E c tool ps iid cid w))
           = trace w @ concat (map (failed_attempt c (execute_request c ?p) resp)
                                [0..<nat (max_retries c)])"
    by (simp add: execute_tool_def)
  have calls: "net_calls (snd (execute_tool E c tool ps iid cid w))
                 = net_calls w + nat (max_retries c)"
    unfolding net_calls_def tr by (simp add: failed_attempts_requests)
  have sleeps: "filter is_Sleep (trace (snd (execute_tool E c tool ps iid cid w)))
           = filter is_Sleep (trace w) @ replicate (nat (max_retries c) - 1) (Sleep (retry_delay c))"
    unfolding tr by (simp add: failed_attempts_sleeps)
  from loop tr calls sleeps show ?thesis by (simp add: execute_tool_def)
qed

theorem execute_tool_all_attempts_fail_witness:
  "1 \<le> max_retries demo_client \<and> 0 \<le> retry_delay demo_client
   \<and> fst (execute_tool (scenario (always busy) True) demo_client
             ''execute_bash'' (JObject []) None None world0)
       = Inl (Exception ''Failed to execute tool after 3 attempts: busy'')
   \<and> net_calls (snd (execute_tool (scenario (always busy) True) demo_client
             ''execute_bash'' (JObject []) None None world0)) = 3
   \<and> filter is_Sleep (trace (snd (execute_tool (scenario (always busy) True) demo_client
             ''execute_bash'' (JObject []) None None world0))) = [Sleep 2, Sleep 2]"
proof -
  have h1: "1 \<le> max_retries demo_client" and h2: "0 \<le> retry_delay demo_client"
    by (simp_all add: demo_client_def)
  have h3: "\<forall>i < nat (max_retries demo_client).
      network (scenario (always busy) True) (net_calls world0 + i)
        (execute_request demo_client (build_payload ''execute_bash'' (JObject []) None None world0))
        = (1 / 2, Inr busy)
      \<and> status_code busy \<noteq> 200"
    by (simp add: scenario_def busy_def always_def execute_request_def demo_client_def)
  have n: "nat (max_retries demo_client) = 3" by (simp add: demo_client_def)
  have msg: "failure_message demo_client (body_text busy)
               = ''Failed to execute tool after 3 attempts: busy''"
    by (simp add: failure_message_def demo_client_def busy_def str_int_def digits.simps
          digit_char_def)
  have nc: "net_calls world0 = 0" "trace world0 = []" by (simp_all add: world0_def net_calls_def)
  have rd: "retry_delay demo_client = 2" by (simp add: demo_client_def)
  have rep: "replicate (3 - 1) (Sleep 2) = [Sleep 2, Sleep 2]"
    by (simp add: eval_nat_numeral)
  note T = execute_tool_all_attempts_fail[of demo_client _ world0 _ _ _ _ "\<lambda>i. 1 / 2"
      "\<lambda>i. busy", OF h1 h2 h3, unfolded n msg nc rd rep, simplified]
  from T have "fst (execute_tool (scenario (always busy) True) demo_client
             ''execute_bash'' (JObject []) None None world0)
       = Inl (Exception ''Failed to execute tool after 3 attempts: busy'')" by blast
  moreover from T have "net_calls (snd (execute_tool (scenario (always busy) True)
             demo_client ''execute_bash'' (JObject []) None None world0)) = 3" by blast
  moreover from T have "filter is_Sleep (trace (snd (execute_tool
             (scenario (always busy) True) demo_client
             ''execute_bash'' (JObject []) None None world0))) = [Sleep 2, Sleep 2]" by blast
  ultimately show ?thesis using h1 h2 by blast
qed

section \<open>An attempt answered with status 200\<close>

text \<open>
  C2, as stated, fails on a 200 response whose body is not JSON: \<^verbatim>\<open>response.json()\<close>
  raises, so nothing is returned. With a \<^verbatim>\<open>requests\<close> library whose decode error is a
  \<^verbatim>\<open>RequestException\<close> the handler even retries (three network calls, then the failure
  error); with an older one the decode error leaves the function after one call.
\<close>

theorem ok_status_unparsable_body_counterexample:
  "status_code ok_html = 200
   \<and> fst (execute_tool (scenario (always ok_html) True) demo_client
            ''execute_bash'' (JObject []) None (Some ''c1'') world0)
       = Inl (Exception ''Failed to execute tool after 3 attempts: Expecting value'')
   \<and> net_calls (snd (execute_tool (scenario (always ok_html) True) demo_client
            ''execute_bash'' (JObject []) None (Some ''c1'') world0)) = 3
   \<and> fst (execute_tool (scenario (always ok_html) False) demo_client
            ''execute_bash'' (JObject []) None (Some ''c1'') world0)
       = Inl (JSONDecodeError ''Expecting value'')"
  by code_simp

text \<open>
  C2, amended. Let a first attempt be made (\<open>max_retries \<ge> 1\<close>). If it is answered with
  status 200 and a body that is valid JSON, \<open>execute_tool\<close> returns the parsed body after
  exactly that one network call. And whenever \<open>execute_tool\<close> returns a value, it is the
  parsed body of a 200 response, and that request is the last event of the trace: a 200
  response is the only exit of the loop that returns a value.
\<close>

theorem execute_tool_first_attempt_200:
  assumes "1 \<le> max_retries c"
  shows "(network E (net_calls w) (execute_request c (build_payload tool ps iid cid w))
            = (dt, Inr resp)
          \<and> status_code resp = 200 \<and> json_loads E (body_text resp) = Inr v
          \<longrightarrow> execute_tool E c tool ps iid cid w
                = (Inr v, w\<lparr>now := now w + dt,
                             trace := trace w @ [Request (execute_request c
                                        (build_payload tool ps iid cid w))]\<rparr>))
       \<and> (execute_tool E c tool ps iid cid w = (Inr v', w')
          \<longrightarrow> (\<exists>dt' resp' w0.
                 network E (net_calls w0) (execute_request c (build_payload tool ps iid cid w))
                   = (dt', Inr resp')
               \<and> status_code resp' = 200 \<and> json_loads E (body_text resp') = Inr v'
               \<and> w' = w0\<lparr>now := now w0 + dt',
                          trace := trace w0 @ [Request (execute_request c
                                     (build_payload tool ps iid cid w))]\<rparr>))"
proof (intro conjI impI)
  assume "network E (net_calls w) (execute_request c (build_payload tool ps iid cid w))
            = (dt, Inr resp)
          \<and> status_code resp = 200 \<and> json_loads E (body_text resp) = Inr v"
  then have "attempt_body E c (build_payload tool ps iid cid w) 0 w
     = (Inr (Return v), w\<lparr>now := now w + dt,
          trace := trace w @ [Request (execute_request c (build_payload tool ps iid cid w))]\<rparr>)"
    using attempt_body_200 by blast
  then show "execute_tool E c tool ps iid cid w
                = (Inr v, w\<lparr>now := now w + dt,
                             trace := trace w @ [Request (execute_request c
                                        (build_payload tool ps iid cid w))]\<rparr>)"
    using assms by (simp add: execute_tool_def attempt_loop_step)
next
  assume "execute_tool E c tool ps iid cid w = (Inr v', w')"
  then have "attempt_loop E c (build_payload tool ps iid cid w) 0 w = (Inr v', w')"
    by (simp add: execute_tool_def)
  moreover have "0 < max_retries c" using assms by simp
  ultimately show "\<exists>dt' resp' w0.
                 network E (net_calls w0) (execute_request c (build_payload tool ps iid cid w))
                   = (dt', Inr resp')
               \<and> status_code resp' = 200 \<and> json_loads E (body_text resp') = Inr v'
               \<and> w' = w0\<lparr>now := now w0 + dt',
                          trace := trace w0 @ [Request (execute_request c
                                     (build_payload tool ps iid cid w))]\<rparr>"
    by (rule attempt_loop_returns)
qed

theorem execute_tool_first_attempt_200_witness:
  "1 \<le> max_retries demo_client
   \<and> network (scenario (always ok_empty) True) (net_calls world0)
       (execute_request demo_client (build_payload ''execute_bash'' (JObject []) None None world0))
       = (1 / 2, Inr ok_empty)
   \<and> status_code ok_empty = 200
   \<and> json_loads (scenario (always ok_empty) True) (body_text ok_empty) = Inr (JObject [])
   \<and> execute_tool (scenario (always ok_empty) True) demo_client
        ''execute_bash'' (JObject []) None None world0
       = (Inr (JObject []),
          world0\<lparr>now := now world0 + 1 / 2,
                 trace := trace world0 @ [Request (execute_request demo_client
                            (build_payload ''execute_bash'' (JObject []) None None world0))]\<rparr>)"
proof -
  have h1: "1 \<le> max_retries demo_client" by (simp add: demo_client_def)
  have h2: "network (scenario (always ok_empty) True) (net_calls world0)
       (execute_request demo_client (build_payload ''execute_bash'' (JObject []) None None world0))
       = (1 / 2, Inr ok_empty)
   \<and> status_code ok_empty = 200
   \<and> json_loads (scenario (always ok_empty) True) (body_text ok_empty) = Inr (JObject [])"
    by (simp add: scenario_def always_def ok_empty_def demo_loads_def execute_request_def
          demo_client_def)
  from execute_tool_first_attempt_200[OF h1, THEN conjunct1, rule_format, OF h2] h1 h2
  show ?thesis by blast
qed

section \<open>The payload\<close>

lemma build_payload_instance_id:
  "map_of (build_payload tool ps iid cid w) ''instance_id''
     = (case iid of None \<Rightarrow> None | Some i \<Rightarrow> if i = [] then None else Some (JString i))"
  by (simp add: build_payload_def Let_def split: option.splits)

lemma build_payload_conversation_id:
  "map_of (build_payload tool ps iid cid w) ''conversation_id''
     = Some (JString (case cid of None \<Rightarrow> ''conv-'' @ str_int (py_int (now w)) | Some x \<Rightarrow> x))"
  by (simp add: build_payload_def Let_def split: option.splits)

lemma build_payload_parameters:
  "map_of (build_payload tool ps iid cid w) ''parameters'' = Some ps
   \<and> map_of (build_payload tool ps iid cid w) ''tool'' = Some (JString tool)"
  by (simp add: build_payload_def Let_def split: option.splits)

text \<open>
  C4, as stated, fails for an instance id that is provided but empty: line 106 tests the
  truth value of \<open>instance_id\<close>, and the empty string is false, so the key is omitted.
\<close>

theorem empty_instance_id_counterexample:
  "trace (snd (execute_tool (scenario (always ok_empty) True) demo_client
                 ''execute_bash'' (JObject []) (Some '''') (Some ''c1'') world0))
     = [Request \<lparr>req_method = POST, req_url = ''http://vm/api/v1/execute'',
                 req_headers = [(''Authorization'', ''Bearer k''),
                                (''Content-Type'', ''application/json'')],
                 req_json = Some (JObject [(''tool'', JString ''execute_bash''),
                                           (''parameters'', JObject []),
                                           (''conversation_id'', JString ''c1'')]),
                 req_timeout = 60\<rparr>]"
  by code_simp

text \<open>
  C4, amended. Every request that \<open>execute_tool\<close> sends carries the same JSON payload. It has
  no \<open>instance_id\<close> key at all when the instance id is omitted or is the empty string, and
  maps \<open>instance_id\<close> to exactly the given string when a non-empty one is provided.
\<close>

theorem execute_tool_instance_id:
  "filter is_Request (trace (snd (execute_tool E c tool ps iid cid w)))
     = filter is_Request (trace w)
       @ replicate (net_calls (snd (execute_tool E c tool ps iid cid w)) - net_calls w)
           (Request (execute_request c (build_payload tool ps iid cid w)))
   \<and> req_json (execute_request c (build_payload tool ps iid cid w))
       = Some (JObject (build_payload tool ps iid cid w))
   \<and> map_of (build_payload tool ps iid cid w) ''instance_id''
       = (case iid of
            None \<Rightarrow> None
          | Some i \<Rightarrow> if i = [] then None else Some (JString i))"
  using execute_tool_requests[of E c tool ps iid cid w]
  by (simp add: build_payload_instance_id execute_request_def)

theorem execute_tool_instance_id_witness:
  "filter is_Request (trace (snd (execute_tool (scenario (always busy) True) demo_client
       ''execute_bash'' (JObject []) (Some ''django.14520'') (Some ''c1'') world0)))
     = replicate 3 (Request (execute_request demo_client
         (build_payload ''execute_bash'' (JObject []) (Some ''django.14520'') (Some ''c1'') world0)))
   \<and> map_of (build_payload ''execute_bash'' (JObject []) (Some ''django.14520'') (Some ''c1'') world0)
        ''instance_id'' = Some (JString ''django.14520'')
   \<and> map_of (build_payload ''execute_bash'' (JObject []) None (Some ''c1'') world0)
        ''instance_id'' = None"
proof -
  have n: "net_calls (snd (execute_tool (scenario (always busy) True) demo_client
       ''execute_bash'' (JObject []) (Some ''django.14520'') (Some ''c1'') world0)) = 3"
    by code_simp
  have z: "net_calls world0 = 0" "trace world0 = []" by (simp_all add: net_calls_def world0_def)
  show ?thesis
    using execute_tool_instance_id[of "scenario (always busy) True" demo_client
        "''execute_bash''" "JObject []" "Some ''django.14520''" "Some ''c1''" world0]
      execute_tool_instance_id[of "scenario (always busy) True" demo_client
        "''execute_bash''" "JObject []" None "Some ''c1''" world0]
    by (simp add: n z)
qed

text \<open>
  C9. All requests of one \<open>execute_tool\<close> call are the same request: the payload built
  before the loop, whose conversation id, when synthesized, is read from the clock of the
  world in which the call started. In the scenario below the clock advances by five and a
  half seconds over three attempts and the id stays \<open>conv-1700000000\<close>.
\<close>

theorem execute_tool_same_payload:
  "filter is_Request (trace (snd (execute_tool E c tool ps iid cid w)))
     = filter is_Request (trace w)
       @ replicate (net_calls (snd (execute_tool E c tool ps iid cid w)) - net_calls w)
           (Request (execute_request c (build_payload tool ps iid cid w)))
   \<and> req_json (execute_request c (build_payload tool ps iid cid w))
       = Some (JObject (build_payload tool ps iid cid w))
   \<and> map_of (build_payload tool ps iid cid w) ''conversation_id''
       = Some (JString (case cid of
                          None \<Rightarrow> ''conv-'' @ str_int (py_int (now w))
                        | Some x \<Rightarrow> x))"
  using execute_tool_requests[of E c tool ps iid cid w]
  by (simp add: build_payload_conversation_id execute_request_def)

theorem execute_tool_same_payload_witness:
  "filter is_Request (trace (snd (execute_tool (scenario (always busy) True) demo_client
       ''execute_bash'' (JObject []) None None world0)))
     = replicate 3 (Request (execute_request demo_client
         (build_payload ''execute_bash'' (JObject []) None None world0)))
   \<and> map_of (build_payload ''execute_bash'' (JObject []) None None world0) ''conversation_id''
       = Some (JString ''conv-1700000000'')
   \<and> now world0 = 1700000000
   \<and> now (snd (execute_tool (scenario (always busy) True) demo_client
       ''execute_bash'' (JObject []) None None world0)) = 1700000000 + 11 / 2"
proof -
  have n: "net_calls (snd (execute_tool (scenario (always busy) True) demo_client
       ''execute_bash'' (JObject []) None None world0)) = 3"
    by code_simp
  have t: "now (snd (execute_tool (scenario (always busy) True) demo_client
       ''execute_bash'' (JObject []) None None world0)) = 1700000000 + 11 / 2"
    by code_simp
  have z: "net_calls world0 = 0" "trace world0 = []" "now world0 = 1700000000"
    by (simp_all add: net_calls_def world0_def)
  have s: "str_int (py_int 1700000000) = ''1700000000''" by code_simp
  show ?thesis
    using execute_tool_same_payload[of "scenario (always busy) True" demo_client
        "''execute_bash''" "JObject []" None None world0]
    by (simp add: n z t s)
qed

section \<open>The synthesized conversation id\<close>

text \<open>Decimal notation is injective, and it never starts with a minus sign.\<close>

lemma digit_char_inj:
  assumes "a < 10" and "b < 10" and "digit_char a = digit_char b"
  shows "a = b"
proof -
  have d: "distinct ''0123456789''" by simp
  have l: "length ''0123456789'' = 10" by simp
  from assms show ?thesis
    unfolding digit_char_def using nth_eq_iff_index_eq[OF d, of a b] l by simp
qed

lemma is_digit_digit_char: "a < 10 \<Longrightarrow> is_digit (digit_char a)"
proof -
  assume "a < 10"
  then have "a < length ''0123456789''" by simp
  then have "''0123456789'' ! a \<in> set ''0123456789''" by (rule nth_mem)
  then show ?thesis by (simp only: is_digit_def digit_char_def)
qed

lemma minus_not_digit: "\<not> is_digit (CHR ''-'')"
  by (simp add: is_digit_def)

lemma digits_small: "n < 10 \<Longrightarrow> digits n = [digit_char (nat n)]"
  by (subst digits.simps) simp

lemma digits_large:
  "\<not> n < 10 \<Longrightarrow> digits n = digits (n div 10) @ [digit_char (nat (n mod 10))]"
  by (subst digits.simps) simp

lemma digits_nonempty: "digits n \<noteq> []"
  by (cases "n < 10") (simp_all add: digits_small digits_large)

lemma digits_all_digit: "list_all is_digit (digits n)"
proof (induction n rule: digits.induct)
  case (1 n)
  show ?case
  proof (cases "n < 10")
    case True
    then have "nat n < 10" by simp
    with True show ?thesis by (simp add: digits_small is_digit_digit_char)
  next
    case False
    have "nat (n mod 10) < 10" by simp
    with False "1.IH" show ?thesis by (simp add: digits_large is_digit_digit_char)
  qed
qed

lemma digits_length_one: "length (digits n) = 1 \<longleftrightarrow> n < 10"
proof (cases "n < 10")
  case True
  then show ?thesis by (simp add: digits_small)
next
  case False
  have "length (digits (n div 10)) \<noteq> 0" using digits_nonempty by simp
  with False show ?thesis by (simp add: digits_large)
qed

lemma digits_inj: "0 \<le> n \<Longrightarrow> 0 \<le> m \<Longrightarrow> digits n = digits m \<Longrightarrow> n = m"
proof (induction n arbitrary: m rule: digits.induct)
  case (1 n)
  show ?case
  proof (cases "n < 10")
    case True
    then have "length (digits m) = 1" using "1.prems"(3) digits_length_one[of n] by simp
    then have m: "m < 10" using digits_length_one[of m] by simp
    with True "1.prems" have "digit_char (nat n) = digit_char (nat m)"
      by (simp add: digits_small)
    moreover have "nat n < 10" "nat m < 10" using True m by simp_all
    ultimately have "nat n = nat m" using digit_char_inj by blast
    with "1.prems" show ?thesis by simp
  next
    case False
    then have "length (digits m) \<noteq> 1" using "1.prems"(3) digits_length_one[of n] by simp
    then have m: "\<not> m < 10" using digits_length_one[of m] by simp
    from False m "1.prems"(3)
    have eq: "digits (n div 10) = digits (m div 10)"
      and dc: "digit_char (nat (n mod 10)) = digit_char (nat (m mod 10))"
      by (simp_all add: digits_large)
    have "n div 10 = m div 10"
      using "1.IH"[OF False _ _ eq] "1.prems"(1,2) by simp
    moreover have "nat (n mod 10) = nat (m mod 10)"
      using digit_char_inj[OF _ _ dc] by simp
    then have "n mod 10 = m mod 10" by simp
    ultimately show ?thesis by (metis div_mult_mod_eq)
  qed
qed

lemma str_int_inj: "str_int a = str_int b \<Longrightarrow> a = b"
proof -
  assume eq: "str_int a = str_int b"
  have no_minus: "\<And>n. hd (digits n) \<noteq> CHR ''-''"
  proof -
    fix n
    have "is_digit (hd (digits n))"
      using digits_all_digit[of n] digits_nonempty[of n]
      by (cases "digits n") simp_all
    then show "hd (digits n) \<noteq> CHR ''-''" using minus_not_digit by metis
  qed
  show "a = b"
  proof (cases "a < 0")
    case True
    show ?thesis
    proof (cases "b < 0")
      case True
      with \<open>a < 0\<close> eq have "digits (- a) = digits (- b)" by (simp add: str_int_def)
      then have "- a = - b" using digits_inj[of "- a" "- b"] True \<open>a < 0\<close> by simp
      then show ?thesis by simp
    next
      case False
      with True eq have "CHR ''-'' # digits (- a) = digits b" by (simp add: str_int_def)
      then have "hd (digits b) = CHR ''-''" by (metis list.sel(1))
      with no_minus show ?thesis by blast
    qed
  next
    case False
    show ?thesis
    proof (cases "b < 0")
      case True
      with False eq have "digits a = CHR ''-'' # digits (- b)" by (simp add: str_int_def)
      then have "hd (digits a) = CHR ''-''" by simp
      with no_minus show ?thesis by blast
    next
      case b: False
      with False eq have "digits a = digits b" by (simp add: str_int_def)
      then show ?thesis using digits_inj[of a b] False b by simp
    qed
  qed
qed

lemma is_integer_literal_str_int: "is_integer_literal (str_int n)"
proof (cases "n < 0")
  case True
  then show ?thesis
    using digits_all_digit[of "- n"] digits_nonempty[of "- n"]
    by (simp add: str_int_def is_integer_literal_def)
next
  case False
  obtain x xs where d: "digits n = x # xs"
    using digits_nonempty[of n] by (cases "digits n") auto
  have "is_digit x" using digits_all_digit[of n] d by simp
  then have "x \<noteq> CHR ''-''" using minus_not_digit by metis
  with False d digits_all_digit[of n] show ?thesis
    by (simp add: str_int_def is_integer_literal_def)
qed

lemma matches_conv_pattern_str_int: "matches_conv_pattern (''conv-'' @ str_int n)"
  by (simp add: matches_conv_pattern_def is_integer_literal_str_int)


lemma attempt_loop_net_calls_mono:
  "net_calls w \<le> net_calls (snd (attempt_loop E c p a w))"
proof -
  obtain k where "filter is_Request (trace (snd (attempt_loop E c p a w)))
         = filter is_Request (trace w) @ replicate k (Request (execute_request c p))"
    using attempt_loop_requests by blast
  then show ?thesis by (simp add: net_calls_def)
qed

lemma attempt_loop_sends:
  assumes "a < max_retries c"
  shows "net_calls w < net_calls (snd (attempt_loop E c p a w))"
proof -
  obtain r w1 where ab: "attempt_body E c p a w = (r, w1)"
    by (cases "attempt_body E c p a w")
  have n1: "net_calls w1 = Suc (net_calls w)"
    using attempt_body_requests[of E c p a w] ab by (simp add: net_calls_def)
  show ?thesis
  proof (cases "r = Inr Next_attempt")
    case True
    then have "attempt_loop E c p a w = attempt_loop E c p (a + 1) w1"
      using assms ab by (simp add: attempt_loop_step)
    then show ?thesis
      using attempt_loop_net_calls_mono[of w1 E c p "a + 1"] n1 by simp
  next
    case False
    then have "snd (attempt_loop E c p a w) = w1"
      using assms ab by (simp add: attempt_loop_step split: sum.splits flow.splits)
    with n1 show ?thesis by simp
  qed
qed

text \<open>
  C5. Without a conversation id, \<open>execute_tool\<close> sends at least one request when an attempt
  is made (\<open>max_retries \<ge> 1\<close>), and every request it sends has as its JSON body the payload
  whose \<open>conversation_id\<close> is \<open>conv-\<close> followed by the decimal notation of the clock
  truncated to whole seconds. That id matches the pattern \<^verbatim>\<open>conv-<integer>\<close>, and the ids of
  two such calls are equal exactly when the two calls start in the same whole second:
  different seconds give different ids, the same second gives a collision.
\<close>

theorem synthesized_conversation_id:
  "filter is_Request (trace (snd (execute_tool E c tool ps iid None w)))
     = filter is_Request (trace w)
       @ replicate (net_calls (snd (execute_tool E c tool ps iid None w)) - net_calls w)
           (Request (execute_request c (build_payload tool ps iid None w)))
   \<and> (1 \<le> max_retries c
        \<longrightarrow> net_calls w < net_calls (snd (execute_tool E c tool ps iid None w)))
   \<and> req_json (execute_request c (build_payload tool ps iid None w))
       = Some (JObject (build_payload tool ps iid None w))
   \<and> map_of (build_payload tool ps iid None w) ''conversation_id''
       = Some (JString (''conv-'' @ str_int (py_int (now w))))
   \<and> matches_conv_pattern (''conv-'' @ str_int (py_int (now w)))
   \<and> ((map_of (build_payload tool ps iid None w) ''conversation_id''
         = map_of (build_payload tool' ps' iid' None w') ''conversation_id'')
        = (py_int (now w) = py_int (now w')))"
proof (intro conjI impI)
  show "filter is_Request (trace (snd (execute_tool E c tool ps iid None w)))
     = filter is_Request (trace w)
       @ replicate (net_calls (snd (execute_tool E c tool ps iid None w)) - net_calls w)
           (Request (execute_request c (build_payload tool ps iid None w)))"
    by (rule execute_tool_requests)
  show "net_calls w < net_calls (snd (execute_tool E c tool ps iid None w))"
    if "1 \<le> max_retries c"
    unfolding execute_tool_def using that by (intro attempt_loop_sends) simp
  show "req_json (execute_request c (build_payload tool ps iid None w))
       = Some (JObject (build_payload tool ps iid None w))"
    by (simp add: execute_request_def)
  show "map_of (build_payload tool ps iid None w) ''conversation_id''
       = Some (JString (''conv-'' @ str_int (py_int (now w))))"
    by (simp add: build_payload_conversation_id)
  show "matches_conv_pattern (''conv-'' @ str_int (py_int (now w)))"
    by (rule matches_conv_pattern_str_int)
  have "(str_int (py_int (now w)) = str_int (py_int (now w')))
          = (py_int (now w) = py_int (now w'))"
    by (auto dest: str_int_inj)
  then show "(map_of (build_payload tool ps iid None w) ''conversation_id''
         = map_of (build_payload tool' ps' iid' None w') ''conversation_id'')
        = (py_int (now w) = py_int (now w'))"
    by (simp add: build_payload_conversation_id)
qed

theorem synthesized_conversation_id_witness:
  "1 \<le> max_retries demo_client
   \<and> filter is_Request (trace (snd (execute_tool (scenario (always busy) True) demo_client
         ''execute_bash'' (JObject []) None None world0)))
       = replicate 3 (Request (execute_request demo_client
           [(''tool'', JString ''execute_bash''), (''parameters'', JObject []),
            (''conversation_id'', JString ''conv-1700000000'')]))
   \<and> filter is_Request (trace (snd (execute_tool (scenario (always ok_empty) True) demo_client
         ''execute_bash'' (JObject []) None None (world0\<lparr>now := 17000000009 / 10\<rparr>))))
       = [Request (execute_request demo_client
           [(''tool'', JString ''execute_bash''), (''parameters'', JObject []),
            (''conversation_id'', JString ''conv-1700000000'')])]
   \<and> filter is_Request (trace (snd (execute_tool (scenario (always ok_empty) True) demo_client
         ''execute_bash'' (JObject []) None None (world0\<lparr>now := 1700000001\<rparr>))))
       = [Request (execute_request demo_client
           [(''tool'', JString ''execute_bash''), (''parameters'', JObject []),
            (''conversation_id'', JString ''conv-1700000001'')])]
   \<and> matches_conv_pattern ''conv-1700000000''"
proof -
  have h: "1 \<le> max_retries demo_client" by (simp add: demo_client_def)
  have p: "py_int (now world0) = 1700000000" by (simp add: world0_def py_int_def)
  have s: "str_int 1700000000 = ''1700000000''" by code_simp
  have b: "build_payload ''execute_bash'' (JObject []) None None world0
             = [(''tool'', JString ''execute_bash''), (''parameters'', JObject []),
                (''conversation_id'', JString ''conv-1700000000'')]"
      "build_payload ''execute_bash'' (JObject []) None None (world0\<lparr>now := 17000000009 / 10\<rparr>)
             = [(''tool'', JString ''execute_bash''), (''parameters'', JObject []),
                (''conversation_id'', JString ''conv-1700000000'')]"
      "build_payload ''execute_bash'' (JObject []) None None (world0\<lparr>now := 1700000001\<rparr>)
             = [(''tool'', JString ''execute_bash''), (''parameters'', JObject []),
                (''conversation_id'', JString ''conv-1700000001'')]"
    by code_simp+
  have n: "net_calls (snd (execute_tool (scenario (always busy) True) demo_client
         ''execute_bash'' (JObject []) None None world0)) = 3"
      "net_calls (snd (execute_tool (scenario (always ok_empty) True) demo_client
         ''execute_bash'' (JObject []) None None (world0\<lparr>now := 17000000009 / 10\<rparr>))) = 1"
      "net_calls (snd (execute_tool (scenario (always ok_empty) True) demo_client
         ''execute_bash'' (JObject []) None None (world0\<lparr>now := 1700000001\<rparr>))) = 1"
    by code_simp+
  have z: "net_calls world0 = 0" "trace world0 = []"
      "net_calls (world0\<lparr>now := 17000000009 / 10\<rparr>) = 0"
      "trace (world0\<lparr>now := 17000000009 / 10\<rparr>) = []"
      "net_calls (world0\<lparr>now := 1700000001\<rparr>) = 0"
      "trace (world0\<lparr>now := 1700000001\<rparr>) = []"
    by (simp_all add: net_calls_def world0_def)
  have 1: "filter is_Request (trace (snd (execute_tool (scenario (always busy) True) demo_client
         ''execute_bash'' (JObject []) None None world0)))
       = replicate 3 (Request (execute_request demo_client
           [(''tool'', JString ''execute_bash''), (''parameters'', JObject []),
            (''conversation_id'', JString ''conv-1700000000'')]))"
    using synthesized_conversation_id[of "scenario (always busy) True" demo_client
        "''execute_bash''" "JObject []" None world0, THEN conjunct1]
    unfolding b n z by simp
  have 2: "filter is_Request (trace (snd (execute_tool (scenario (always ok_empty) True)
         demo_client ''execute_bash'' (JObject []) None None
         (world0\<lparr>now := 17000000009 / 10\<rparr>))))
       = [Request (execute_request demo_client
           [(''tool'', JString ''execute_bash''), (''parameters'', JObject []),
            (''conversation_id'', JString ''conv-1700000000'')])]"
    using synthesized_conversation_id[of "scenario (always ok_empty) True" demo_client
        "''execute_bash''" "JObject []" None "world0\<lparr>now := 17000000009 / 10\<rparr>",
        THEN conjunct1]
    unfolding b n z by simp
  have 3: "filter is_Request (trace (snd (execute_tool (scenario (always ok_empty) True)
         demo_client ''execute_bash'' (JObject []) None None (world0\<lparr>now := 1700000001\<rparr>))))
       = [Request (execute_request demo_client
           [(''tool'', JString ''execute_bash''), (''parameters'', JObject []),
            (''conversation_id'', JString ''conv-1700000001'')])]"
    using synthesized_conversation_id[of "scenario (always ok_empty) True" demo_client
        "''execute_bash''" "JObject []" None "world0\<lparr>now := 1700000001\<rparr>", THEN conjunct1]
    unfolding b n z by simp
  have 4: "matches_conv_pattern ''conv-1700000000''"
    using synthesized_conversation_id[of "scenario (always busy) True" demo_client
        "''execute_bash''" "JObject []" None world0,
        THEN conjunct2, THEN conjunct2, THEN conjunct2, THEN conjunct2, THEN conjunct1]
    by (simp add: p s)
  from h 1 2 3 4 show ?thesis by blast
qed

section \<open>Construction\<close>

lemma rstrip_slash_decomp: "\<exists>k. s = rstrip_slash s @ replicate k (CHR ''/'')"
proof -
  let ?P = "\<lambda>c. c = CHR ''/''"
  let ?t = "takeWhile ?P (rev s)"
  let ?d = "dropWhile ?P (rev s)"
  have "rev (?t @ ?d) = rev ?d @ rev ?t" by (rule rev_append)
  moreover have "?t @ ?d = rev s" by (rule takeWhile_dropWhile_id)
  ultimately have "rev (rev s) = rev ?d @ rev ?t" by (simp only:)
  then have s: "s = rstrip_slash s @ rev ?t" by (simp only: rev_rev_ident rstrip_slash_def)
  have "\<forall>x \<in> set (rev ?t). x = CHR ''/''" by (auto dest: set_takeWhileD)
  then have "replicate (length (rev ?t)) (CHR ''/'') = rev ?t"
    by (rule replicate_length_same)
  with s show ?thesis by metis
qed

lemma rstrip_slash_no_trailing: "rstrip_slash s \<noteq> u @ [CHR ''/'']"
proof
  assume "rstrip_slash s = u @ [CHR ''/'']"
  then have "dropWhile (\<lambda>c. c = CHR ''/'') (rev s) = CHR ''/'' # rev u"
    by (simp add: rstrip_slash_def rev_swap)
  then have "hd (dropWhile (\<lambda>c. c = CHR ''/'') (rev s)) = CHR ''/''"
    and "dropWhile (\<lambda>c. c = CHR ''/'') (rev s) \<noteq> []" by simp_all
  then show False using hd_dropWhile[of "\<lambda>c. c = CHR ''/''" "rev s"] by simp
qed

lemma init_eq:
  "init E url key t m d w =
     (case fst (check_connection E
         \<lparr>server_url = rstrip_slash url, api_key = key,
           timeout = (case t of None \<Rightarrow> 60 | Some x \<Rightarrow> x),
           max_retries = (case m of None \<Rightarrow> 3 | Some x \<Rightarrow> x),
           retry_delay = (case d of None \<Rightarrow> 2 | Some x \<Rightarrow> x),
           headers = [(''Authorization'', ''Bearer '' @ key),
                      (''Content-Type'', ''application/json'')]\<rparr> w) of
        Inl e \<Rightarrow> Inl e
      | Inr ok \<Rightarrow>
          Inr \<lparr>server_url = rstrip_slash url, api_key = key,
                timeout = (case t of None \<Rightarrow> 60 | Some x \<Rightarrow> x),
                max_retries = (case m of None \<Rightarrow> 3 | Some x \<Rightarrow> x),
                retry_delay = (case d of None \<Rightarrow> 2 | Some x \<Rightarrow> x),
                headers = [(''Authorization'', ''Bearer '' @ key),
                           (''Content-Type'', ''application/json'')]\<rparr>,
      snd (check_connection E
         \<lparr>server_url = rstrip_slash url, api_key = key,
           timeout = (case t of None \<Rightarrow> 60 | Some x \<Rightarrow> x),
           max_retries = (case m of None \<Rightarrow> 3 | Some x \<Rightarrow> x),
           retry_delay = (case d of None \<Rightarrow> 2 | Some x \<Rightarrow> x),
           headers = [(''Authorization'', ''Bearer '' @ key),
                      (''Content-Type'', ''application/json'')]\<rparr> w))"
proof -
  let ?self = "\<lparr>server_url = rstrip_slash url, api_key = key,
           timeout = (case t of None \<Rightarrow> 60 | Some x \<Rightarrow> x),
           max_retries = (case m of None \<Rightarrow> 3 | Some x \<Rightarrow> x),
           retry_delay = (case d of None \<Rightarrow> 2 | Some x \<Rightarrow> x),
           headers = [(''Authorization'', ''Bearer '' @ key),
                      (''Content-Type'', ''application/json'')]\<rparr>"
  obtain r w1 where cc: "check_connection E ?self w = (r, w1)"
    by (cases "check_connection E ?self w")
  then show ?thesis by (cases r) (simp_all add: init_def Let_def)
qed

text \<open>
  C8, as stated, fails: line 52 calls \<open>check_connection\<close> unguarded, and \<open>check_connection\<close>
  lets through every exception that is not a \<^verbatim>\<open>RequestException\<close>. Construction with
  \<open>timeout = 0\<close> raises the \<^verbatim>\<open>ValueError\<close> of the failed probe instead of returning a client.
\<close>

theorem init_raises_counterexample:
  "init (scenario (always ok_empty) True) ''http://vm/'' ''k'' (Some 0) None None world0
     = (Inl timeout_error,
        \<lparr>now = 1700000000,
         trace = [Request (health_request (demo_client\<lparr>timeout := 0\<rparr>))]\<rparr>)"
  by code_simp

text \<open>
  C8, amended. The endpoint of the client under construction is the given address without
  its trailing slashes: the address is the endpoint followed by slashes only, and the
  endpoint does not end in a slash. Construction sends exactly one request, the health check
  GET of \<open>check_connection\<close>, and the world after construction is the world after the health
  check. It returns the client whenever the probe returns a boolean, that is for every
  response, whatever its status, and for every \<^verbatim>\<open>RequestException\<close>; the boolean is dropped.
  It raises exactly when the library raises an exception that is not a
  \<^verbatim>\<open>RequestException\<close>, and then it raises that exception.
\<close>

theorem init_outcome:
  "\<exists>self k.
     server_url self = rstrip_slash url
   \<and> url = rstrip_slash url @ replicate k (CHR ''/'')
   \<and> rstrip_slash url \<noteq> u @ [CHR ''/'']
   \<and> fst (init E url key t m d w)
       = (case snd (network E (net_calls w) (health_request self)) of
            Inl e \<Rightarrow> if is_RequestException E e then Inr self else Inl e
          | Inr response \<Rightarrow> Inr self)
   \<and> snd (init E url key t m d w) = snd (check_connection E self w)
   \<and> filter is_Request (trace (snd (init E url key t m d w)))
       = filter is_Request (trace w) @ [Request (health_request self)]
   \<and> req_method (health_request self) = GET"
proof -
  let ?self = "\<lparr>server_url = rstrip_slash url, api_key = key,
           timeout = (case t of None \<Rightarrow> 60 | Some x \<Rightarrow> x),
           max_retries = (case m of None \<Rightarrow> 3 | Some x \<Rightarrow> x),
           retry_delay = (case d of None \<Rightarrow> 2 | Some x \<Rightarrow> x),
           headers = [(''Authorization'', ''Bearer '' @ key),
                      (''Content-Type'', ''application/json'')]\<rparr>"
  obtain k where k: "url = rstrip_slash url @ replicate k (CHR ''/'')"
    using rstrip_slash_decomp by blast
  have 2: "server_url ?self = rstrip_slash url" by simp
  have 3: "rstrip_slash url \<noteq> u @ [CHR ''/'']" by (rule rstrip_slash_no_trailing)
  have 4: "fst (init E url key t m d w)
       = (case snd (network E (net_calls w) (health_request ?self)) of
            Inl e \<Rightarrow> if is_RequestException E e then Inr ?self else Inl e
          | Inr response \<Rightarrow> Inr ?self)"
    by (simp add: init_eq check_connection_fst split: sum.splits)
  have 5: "snd (init E url key t m d w) = snd (check_connection E ?self w)"
    by (simp add: init_eq)
  have 6: "filter is_Request (trace (snd (init E url key t m d w)))
       = filter is_Request (trace w) @ [Request (health_request ?self)]"
    unfolding 5 by (rule check_connection_requests)
  have 7: "req_method (health_request ?self) = GET" by (simp add: health_request_def)
  from 2 k 3 4 5 6 7 show ?thesis by blast
qed

theorem init_outcome_witness:
  "init (scenario refused True) ''http://vm//'' ''k'' None None None world0
     = (Inr demo_client,
        \<lparr>now = 1700000000 + 1 / 2,
         trace = [Request (health_request demo_client),
                  Log ERROR ''Failed to connect to server: Connection refused'']\<rparr>)
   \<and> fst (check_connection (scenario refused True) demo_client world0) = Inr False
   \<and> rstrip_slash ''http://vm//'' = ''http://vm''"
proof -
  have e: "init (scenario refused True) ''http://vm//'' ''k'' None None None world0
     = (Inr demo_client,
        \<lparr>now = 1700000000 + 1 / 2,
         trace = [Request (health_request demo_client),
                  Log ERROR ''Failed to connect to server: Connection refused'']\<rparr>)"
    by code_simp
  have c: "fst (check_connection (scenario refused True) demo_client world0) = Inr False"
    by code_simp
  have n: "\<And>r. req_timeout r = 60 \<Longrightarrow> snd (network (scenario refused True) 0 r)
             = Inl (RequestException ''Connection refused'')"
    by (simp add: scenario_def refused_def)
  have z: "net_calls world0 = 0" by (simp add: net_calls_def world0_def)
  from init_outcome[of "''http://vm//''" "''http://vm''" "scenario refused True" "''k''"
      None None None world0]
  have "rstrip_slash ''http://vm//'' = ''http://vm''"
    unfolding e z by (auto simp: demo_client_def n health_request_def)
  with e c show ?thesis by blast
qed

section \<open>The command line with invalid parameters\<close>

text \<open>
  C6, as stated, fails: \<open>main\<close> constructs the client before it parses the parameters, and
  construction sends the health check. With parameters that are not JSON a request has
  already gone to the server when the parse error is reported.
\<close>

theorem main_invalid_params_counterexample:
  "json_loads (scenario (always ok_empty) True) (arg_params demo_args)
     = Inl (JSONDecodeError ''Expecting value'')
   \<and> main (scenario (always ok_empty) True) demo_args world0
       = (Inr (),
          \<lparr>now = 1700000000 + 1 / 2,
           trace = [Request \<lparr>req_method = GET, req_url = ''http://vm/api/health'',
                             req_headers = [(''Authorization'', ''Bearer k''),
                                            (''Content-Type'', ''application/json'')],
                             req_json = None, req_timeout = 60\<rparr>,
                    Log INFO ''Successfully connected to OpenHands server'',
                    Log ERROR ''Invalid JSON in params argument'']\<rparr>)"
  by code_simp

text \<open>
  C6, amended. Let the parameters string be one that the parser refuses with an exception
  \<open>e\<close>. Then \<open>execute_tool\<close> is never called and no POST is sent: the only request of the
  whole run is the single health check GET of the construction, sent before the parameters
  are parsed. If the probe raises (an exception of the library that is not a
  \<^verbatim>\<open>RequestException\<close>), \<open>main\<close> raises it and the parameters are never parsed. Otherwise,
  if \<open>e\<close> is a \<^verbatim>\<open>JSONDecodeError\<close>, \<open>main\<close> logs the parse error as its last event and
  returns normally; if \<open>e\<close> is of another class (\<^verbatim>\<open>RecursionError\<close>), \<open>main\<close> raises it.
\<close>

theorem main_invalid_params:
  assumes "json_loads E (arg_params a) = Inl e"
  shows "\<exists>self.
           server_url self = rstrip_slash (arg_server a)
         \<and> timeout self = 60
         \<and> fst (main E a w)
             = (case fst (check_connection E self w) of
                  Inl e' \<Rightarrow> Inl e'
                | Inr ok \<Rightarrow> if is_JSONDecodeError e then Inr () else Inl e)
         \<and> trace (snd (main E a w))
             = trace (snd (check_connection E self w))
               @ (case fst (check_connection E self w) of
                    Inl e' \<Rightarrow> []
                  | Inr ok \<Rightarrow> if is_JSONDecodeError e
                              then [Log ERROR ''Invalid JSON in params argument''] else [])
         \<and> filter is_Request (trace (snd (main E a w)))
             = filter is_Request (trace w) @ [Request (health_request self)]
         \<and> req_method (health_request self) = GET
         \<and> req_url (health_request self) = rstrip_slash (arg_server a) @ ''/api/health''"
proof -
  let ?self = "\<lparr>server_url = rstrip_slash (arg_server a), api_key = arg_key a,
           timeout = 60, max_retries = 3, retry_delay = 2,
           headers = [(''Authorization'', ''Bearer '' @ arg_key a),
                      (''Content-Type'', ''application/json'')]\<rparr>"
  let ?w1 = "snd (check_connection E ?self w)"
  have i: "init E (arg_server a) (arg_key a) None None None w
             = (case fst (check_connection E ?self w) of
                  Inl e' \<Rightarrow> Inl e' | Inr ok \<Rightarrow> Inr ?self, ?w1)"
    by (simp add: init_eq split: sum.splits)
  have m: "main E a w
             = (case fst (check_connection E ?self w) of
                  Inl e' \<Rightarrow> (Inl e', ?w1)
                | Inr ok \<Rightarrow>
                    if is_JSONDecodeError e
                    then (Inr (), log ERROR ''Invalid JSON in params argument'' ?w1)
                    else (Inl e, ?w1))"
    unfolding main_def i using assms by (simp split: sum.splits)
  have 1: "server_url ?self = rstrip_slash (arg_server a) \<and> timeout ?self = 60" by simp
  have 2: "fst (main E a w)
             = (case fst (check_connection E ?self w) of
                  Inl e' \<Rightarrow> Inl e'
                | Inr ok \<Rightarrow> if is_JSONDecodeError e then Inr () else Inl e)"
    unfolding m by (simp split: sum.splits)
  have 3: "trace (snd (main E a w))
             = trace ?w1
               @ (case fst (check_connection E ?self w) of
                    Inl e' \<Rightarrow> []
                  | Inr ok \<Rightarrow> if is_JSONDecodeError e
                              then [Log ERROR ''Invalid JSON in params argument''] else [])"
    unfolding m by (simp add: log_def split: sum.splits)
  have 4: "filter is_Request (trace (snd (main E a w)))
             = filter is_Request (trace w) @ [Request (health_request ?self)]"
    unfolding 3 by (simp add: check_connection_requests split: sum.splits)
  have 5: "req_method (health_request ?self) = GET
         \<and> req_url (health_request ?self) = rstrip_slash (arg_server a) @ ''/api/health''"
    by (simp add: health_request_def)
  from 1 2 3 4 5 show ?thesis by blast
qed

theorem main_invalid_params_witness:
  "json_loads (scenario refused True) (arg_params demo_args)
     = Inl (JSONDecodeError ''Expecting value'')
   \<and> fst (main (scenario refused True) demo_args world0) = Inr ()
   \<and> filter is_Request (trace (snd (main (scenario refused True) demo_args world0)))
       = [Request (health_request demo_client)]"
proof -
  have h: "json_loads (scenario refused True) (arg_params demo_args)
             = Inl (JSONDecodeError ''Expecting value'')"
    by (simp add: scenario_def demo_args_def demo_loads_def)
  from main_invalid_params[OF h, of world0] obtain self where
    s: "timeout self = 60"
    and m: "fst (main (scenario refused True) demo_args world0)
              = (case fst (check_connection (scenario refused True) self world0) of
                   Inl e' \<Rightarrow> Inl e'
                 | Inr ok \<Rightarrow> if is_JSONDecodeError (JSONDecodeError ''Expecting value'')
                             then Inr () else Inl (JSONDecodeError ''Expecting value''))"
    by blast
  have "fst (check_connection (scenario refused True) self world0) = Inr False"
    using s by (simp add: check_connection_fst scenario_def refused_def health_request_def)
  with m have f: "fst (main (scenario refused True) demo_args world0) = Inr ()" by simp
  have t: "filter is_Request (trace (snd (main (scenario refused True) demo_args world0)))
             = [Request (health_request demo_client)]" by code_simp
  from h f t show ?thesis by blast
qed

section \<open>The convenience methods\<close>

text \<open>
  C7. \<open>execute_bash\<close> is \<open>execute_tool\<close> with tool \<open>execute_bash\<close>, parameters
  \<open>{command}\<close> and the same ids. \<open>edit_file\<close> is \<open>execute_tool\<close> with tool \<open>edit_file\<close>
  and parameters \<open>path\<close>, \<open>new_content_draft\<close>, \<open>start\<close> and \<open>end\<close>, with the defaults
  \<open>start = 1\<close> and \<open>end = -1\<close>; an explicit \<open>end = -1\<close> is the same call as the default,
  and every request it sends carries these parameters unchanged under the key
  \<open>parameters\<close>.
\<close>

theorem wrappers_delegate:
  "execute_bash E c command iid cid w
     = execute_tool E c ''execute_bash'' (JObject [(''command'', JString command)]) iid cid w
   \<and> edit_file E c path draft start_arg end_arg iid cid w
     = execute_tool E c ''edit_file''
         (JObject [(''path'', JString path),
                   (''new_content_draft'', JString draft),
                   (''start'', JInt (case start_arg of None \<Rightarrow> 1 | Some s \<Rightarrow> s)),
                   (''end'', JInt (case end_arg of None \<Rightarrow> - 1 | Some e \<Rightarrow> e))])
         iid cid w
   \<and> edit_file E c path draft start_arg (Some (- 1)) iid cid w
     = edit_file E c path draft start_arg None iid cid w
   \<and> filter is_Request (trace (snd (edit_file E c path draft start_arg end_arg iid cid w)))
     = filter is_Request (trace w)
       @ replicate (net_calls (snd (edit_file E c path draft start_arg end_arg iid cid w))
                    - net_calls w)
           (Request (execute_request c
              (build_payload ''edit_file''
                 (JObject [(''path'', JString path),
                           (''new_content_draft'', JString draft),
                           (''start'', JInt (case start_arg of None \<Rightarrow> 1 | Some s \<Rightarrow> s)),
                           (''end'', JInt (case end_arg of None \<Rightarrow> - 1 | Some e \<Rightarrow> e))])
                 iid cid w)))
   \<and> map_of (build_payload tool ps iid cid w) ''parameters'' = Some ps"
proof -
  let ?ps = "JObject [(''path'', JString path),
                   (''new_content_draft'', JString draft),
                   (''start'', JInt (case start_arg of None \<Rightarrow> 1 | Some s \<Rightarrow> s)),
                   (''end'', JInt (case end_arg of None \<Rightarrow> - 1 | Some e \<Rightarrow> e))]"
  have 1: "execute_bash E c command iid cid w
     = execute_tool E c ''execute_bash'' (JObject [(''command'', JString command)]) iid cid w"
    by (simp add: execute_bash_def)
  have 2: "edit_file E c path draft start_arg end_arg iid cid w
     = execute_tool E c ''edit_file'' ?ps iid cid w"
    by (simp add: edit_file_def Let_def)
  have 3: "edit_file E c path draft start_arg (Some (- 1)) iid cid w
     = edit_file E c path draft start_arg None iid cid w"
    by (simp add: edit_file_def Let_def)
  have 4: "filter is_Request (trace (snd (edit_file E c path draft start_arg end_arg iid cid w)))
     = filter is_Request (trace w)
       @ replicate (net_calls (snd (edit_file E c path draft start_arg end_arg iid cid w))
                    - net_calls w)
           (Request (execute_request c (build_payload ''edit_file'' ?ps iid cid w)))"
    unfolding 2 by (rule execute_tool_requests)
  have 5: "map_of (build_payload tool ps iid cid w) ''parameters'' = Some ps"
    by (simp add: build_payload_parameters)
  from 1 2 3 4 5 show ?thesis by blast
qed

theorem wrappers_delegate_witness:
  "trace (snd (execute_bash (scenario (always ok_empty) True) demo_client ''echo hi''
                 None (Some ''c1'') world0))
     = [Request (execute_request demo_client
          [(''tool'', JString ''execute_bash''),
           (''parameters'', JObject [(''command'', JString ''echo hi'')]),
           (''conversation_id'', JString ''c1'')])]
   \<and> trace (snd (edit_file (scenario (always ok_empty) True) demo_client ''a.py'' ''x = 1''
                 None None None (Some ''c1'') world0))
     = [Request (execute_request demo_client
          [(''tool'', JString ''edit_file''),
           (''parameters'', JObject [(''path'', JString ''a.py''),
                                     (''new_content_draft'', JString ''x = 1''),
                                     (''start'', JInt 1), (''end'', JInt (- 1))]),
           (''conversation_id'', JString ''c1'')])]"
proof -
  have a: "trace (snd (execute_tool (scenario (always ok_empty) True) demo_client
             ''execute_bash'' (JObject [(''command'', JString ''echo hi'')])
             None (Some ''c1'') world0))
     = [Request (execute_request demo_client
          [(''tool'', JString ''execute_bash''),
           (''parameters'', JObject [(''command'', JString ''echo hi'')]),
           (''conversation_id'', JString ''c1'')])]"
    by code_simp
  have b: "trace (snd (execute_tool (scenario (always ok_empty) True) demo_client
             ''edit_file'' (JObject [(''path'', JString ''a.py''),
                                     (''new_content_draft'', JString ''x = 1''),
                                     (''start'', JInt 1), (''end'', JInt (- 1))])
             None (Some ''c1'') world0))
     = [Request (execute_request demo_client
          [(''tool'', JString ''edit_file''),
           (''parameters'', JObject [(''path'', JString ''a.py''),
                                     (''new_content_draft'', JString ''x = 1''),
                                     (''start'', JInt 1), (''end'', JInt (- 1))]),
           (''conversation_id'', JString ''c1'')])]"
    by code_simp
  note T = wrappers_delegate[of "scenario (always ok_empty) True" demo_client _
      None "Some ''c1''" world0]
  from T[of "''echo hi''" "''a.py''" "''x = 1''" None None, THEN conjunct1]
       T[of "''echo hi''" "''a.py''" "''x = 1''" None None, THEN conjunct2, THEN conjunct1]
  show ?thesis using a b by simp
qed

end
